theory Spec2Isabelle
  imports Main
begin

section \<open>JavaScript calls, promises and JSON values\<close>

text \<open>
  A call of the platform either throws (the thrown value is kept as its \<open>message\<close>)
  or returns. A call of an asynchronous operation returns a promise, which is settled
  later: rejected with a message or resolved with a value.
\<close>

datatype 'a outcome = Throw string | Return 'a

datatype 'a promise = Rejected string | Resolved 'a

text \<open>
  \<open>await e\<close> inside \<open>try\<close>: a synchronous throw of \<open>e\<close> and a rejection of the
  promise it returned both arrive at the \<open>catch\<close>; a resolution gives the value.
\<close>

fun await :: "'a promise outcome \<Rightarrow> 'a outcome" where
  "await (Throw m) = Throw m"
| "await (Return (Rejected m)) = Throw m"
| "await (Return (Resolved v)) = Return v"

text \<open>
  The operator \<open>!\<close> on an object. A promise is an object and every object is truthy,
  whatever the promise is settled with, so \<open>!p\<close> is false.
\<close>

definition js_not :: "'a promise \<Rightarrow> bool" where
  "js_not p = False"

datatype json =
    JNull
  | JBool bool
  | JNum int
  | JStr string
  | JArr "json list"
  | JObj "(string \<times> json) list"

text \<open>Property access \<open>v.name\<close> on a parsed JSON value that is not \<open>null\<close>:
  \<open>None\<close> is \<open>undefined\<close>.\<close>

fun json_get :: "json \<Rightarrow> string \<Rightarrow> json option" where
  "json_get (JObj fs) name = map_of fs name"
| "json_get _ name = None"

text \<open>
  A JavaScript number as \<open>parseInt\<close> returns it: \<open>NaN\<close>, a double that is an
  integer, the negative zero, or an infinity.
\<close>

datatype js_number = NaN | Num int | NegZero | PosInfinity | NegInfinity

text \<open>\<open>JSON.stringify\<close> of a number: \<open>null\<close> for \<open>NaN\<close> and the
  infinities, \<open>0\<close> for the negative zero.\<close>

fun number_json :: "js_number \<Rightarrow> json" where
  "number_json (Num n) = JNum n"
| "number_json NegZero = JNum 0"
| "number_json NaN = JNull"
| "number_json PosInfinity = JNull"
| "number_json NegInfinity = JNull"

section \<open>Data model\<close>

datatype OrderStatus =
  created | accepted | queued | work_started | work_completed | delivered | pending | declined

record OrderMetadata =
  orderId :: string
  orderCartId :: string
  orderSongIds :: "string list"
  orderStatus :: OrderStatus

record MayAct =
  client_id :: string

text \<open>
  The payload of a token. The type \<open>Claims\<close> of the source declares no \<open>aud\<close>, but
  \<open>verifyRequest\<close> reads \<open>payload.aud\<close> and \<open>signJwt\<close> writes it: the field is
  optional, \<open>None\<close> being \<open>undefined\<close>.
\<close>

record Claims =
  realm :: string
  sub :: string
  may_act :: MayAct
  nbf :: int
  iat :: int
  addl :: OrderMetadata
  aud :: "string option"

record JwtData =
  payload :: Claims

datatype algorithm = RS256 | RS384 | RS512

text \<open>\<open>ApiError | ApiResponse<T>\<close>: one object type whose properties \<open>error\<close> and
  \<open>data\<close> may be absent (\<open>None\<close>).\<close>

record ApiResult =
  error :: "json option"
  data :: "json option"
  api_status :: nat

definition isApiError :: "ApiResult \<Rightarrow> bool" where
  "isApiError res = (error res \<noteq> None)"

subsection \<open>The object store\<close>

record R2MultipartUpload =
  key :: string
  uploadId :: string

record R2UploadedPart =
  partNumber :: js_number
  etag :: string

record R2Object =
  httpMetadata :: "(string \<times> string) list"
  httpEtag :: string

record R2ObjectBody = R2Object +
  body :: string

text \<open>
  The bucket binding. Each operation is given by what the store answers; the operations
  of a multipart upload object (\<open>uploadPart\<close>, \<open>complete\<close>, \<open>abort\<close>) take the
  object they are called on as first argument. \<open>complete\<close> receives
  \<open>completeBody.parts\<close> as it is (\<open>None\<close> is \<open>undefined\<close>).
\<close>

record R2Bucket =
  createMultipartUpload :: "string \<Rightarrow> R2MultipartUpload promise outcome"
  uploadPart :: "R2MultipartUpload \<Rightarrow> js_number \<Rightarrow> string \<Rightarrow> R2UploadedPart promise outcome"
  complete :: "R2MultipartUpload \<Rightarrow> json option \<Rightarrow> R2Object promise outcome"
  abort :: "R2MultipartUpload \<Rightarrow> unit promise outcome"
  get :: "string \<Rightarrow> R2ObjectBody option promise outcome"
  delete :: "string \<Rightarrow> unit promise outcome"

text \<open>\<open>resumeMultipartUpload\<close> builds the upload object locally, without asking the store.\<close>

definition resumeMultipartUpload :: "string \<Rightarrow> string \<Rightarrow> R2MultipartUpload" where
  "resumeMultipartUpload k u = \<lparr>key = k, uploadId = u\<rparr>"

datatype store_call =
    CreateMultipartUpload string
  | ResumeMultipartUpload string string
  | UploadPart R2MultipartUpload js_number string
  | Complete R2MultipartUpload "json option"
  | Abort R2MultipartUpload
  | Get string
  | Delete string

subsection \<open>Configuration\<close>

record Env =
  BUCKET_NAME :: R2Bucket
  COOKIE_NAME :: string
  AUTHORIZED_SUBJECT :: string
  AUTHORIZED_REALM :: string
  AUTHORIZED_CLIENT_ID :: string
  aUTHORIZED_AUDIENCE :: string
  CLOUDFLARE_WORKER_PRIVATE_KEY :: string
  CLOUDFLARE_WORKER_PUBLIC_KEY :: string
  CLOUDFLARE_WORKER_AUD :: string
  CLOUDFLARE_WORKER_REALM :: string
  CLOUDFLARE_WORKER_SUB :: string
  CLOUDFLARE_WORKER_CLIENT_ID :: string
  CLOUDFLARE_WORKER_SIGNING_ALGO :: algorithm
  CONVEYOR_API_URL :: string
  CONVEYOR_API_VERSION :: string

subsection \<open>Requests and responses\<close>

type_synonym Headers = "(string \<times> string) list"

text \<open>\<open>headers.get(name)\<close>; header names are kept in lower case, as \<open>Headers\<close> does.\<close>

definition headers_get :: "Headers \<Rightarrow> string \<Rightarrow> string option" where
  "headers_get h name = map_of h name"

text \<open>\<open>headers.set(name, value)\<close> replaces the header.\<close>

definition headers_set :: "Headers \<Rightarrow> string \<Rightarrow> string \<Rightarrow> Headers" where
  "headers_set h name v = filter (\<lambda>p. fst p \<noteq> name) h @ [(name, v)]"

text \<open>
  An inbound request, with its URL already parsed: \<open>url_pathname\<close> is
  \<open>new URL(request.url).pathname\<close> and \<open>url_searchParams\<close> the query parameters in
  order. \<open>req_body = None\<close> is \<open>request.body === null\<close>. A string holds the
  UTF-8 bytes of the JavaScript string.
\<close>

record Request =
  req_method :: string
  url_pathname :: string
  url_searchParams :: "(string \<times> string) list"
  req_headers :: Headers
  req_body :: "string option"

text \<open>\<open>url.searchParams.get(name)\<close>: the first value of that name, or \<open>null\<close>.\<close>

definition searchParams_get :: "Request \<Rightarrow> string \<Rightarrow> string option" where
  "searchParams_get request name = map_of (url_searchParams request) name"

text \<open>The body of a response: \<open>null\<close>, a text, the text \<open>JSON.stringify(v)\<close> of a
  value, or the bytes of a stored object.\<close>

datatype BodyInit = NullBody | TextBody string | JsonBody json | StreamBody string

record Response =
  res_body :: BodyInit
  status :: nat
  res_headers :: Headers

text \<open>\<open>new Response(b)\<close> has status 200 and no header of the handler's.\<close>

definition new_Response :: "BodyInit \<Rightarrow> nat \<Rightarrow> Response" where
  "new_Response b st = \<lparr>res_body = b, status = st, res_headers = []\<rparr>"

text \<open>The outbound request of the global \<open>fetch\<close> and what it answers;
  \<open>fr_json\<close> is what \<open>response.json()\<close> gives, a throw when the body is not JSON.\<close>

record FetchRequest =
  fq_url :: string
  fq_method :: string
  fq_headers :: Headers

record FetchResponse =
  fr_status :: nat
  fr_json :: "json outcome"

section \<open>The platform\<close>

text \<open>
  What the handler calls and the sources do not hold: \<open>parse\<close> and
  \<open>stringifyCookie\<close> of the package \<open>cookie\<close>, \<open>verify\<close> and \<open>sign\<close> of
  \<open>./jwt\<close>, \<open>Date.now()\<close>, the global \<open>fetch\<close> and the JSON parser behind
  \<open>request.json()\<close>. \<open>verify\<close> answers \<open>None\<close> for \<open>undefined\<close>; it
  reports a failure by that value, not by an exception. \<open>stringifyCookie\<close> stands
  for the building of the \<open>cookie\<close> header of the outbound request, which may throw.
\<close>

record Platform =
  parse :: "string \<Rightarrow> string \<Rightarrow> string option"
  stringifyCookie :: "(string \<times> string) list \<Rightarrow> string outcome"
  verify :: "string \<Rightarrow> string \<Rightarrow> algorithm \<Rightarrow> JwtData option"
  sign :: "Claims \<Rightarrow> string \<Rightarrow> algorithm \<Rightarrow> string promise outcome"
  Date_now :: int
  global_fetch :: "FetchRequest \<Rightarrow> FetchResponse promise outcome"
  JSON_parse :: "string \<Rightarrow> json outcome"

text \<open>The calls of the authorization pipeline, in the order they are made.\<close>

datatype auth_call =
    Verify string string algorithm
  | Sign Claims string algorithm
  | Fetch FetchRequest

text \<open>
  \<open>request.json()\<close> reads the body and parses it. With no body it parses the empty
  text, which is not JSON: the promise is rejected with a \<open>SyntaxError\<close>.
\<close>

definition request_json :: "Platform \<Rightarrow> Request \<Rightarrow> json outcome" where
  "request_json P request =
     (case req_body request of
        None \<Rightarrow> Throw ''Unexpected end of JSON input''
      | Some b \<Rightarrow> JSON_parse P b)"

section \<open>The authorization pipeline\<close>

definition signJwt :: "Platform \<Rightarrow> OrderMetadata \<Rightarrow> Env \<Rightarrow> string outcome \<times> auth_call list" where
  "signJwt P meta env =
     (let now = Date_now P;
          claims = \<lparr>realm = CLOUDFLARE_WORKER_REALM env,
                    sub = CLOUDFLARE_WORKER_SUB env,
                    may_act = \<lparr>client_id = CLOUDFLARE_WORKER_CLIENT_ID env\<rparr>,
                    nbf = now,
                    iat = now,
                    addl = meta,
                    aud = Some (CLOUDFLARE_WORKER_AUD env)\<rparr>
      in (await (sign P claims (CLOUDFLARE_WORKER_PRIVATE_KEY env)
                   (CLOUDFLARE_WORKER_SIGNING_ALGO env)),
          [Sign claims (CLOUDFLARE_WORKER_PRIVATE_KEY env) (CLOUDFLARE_WORKER_SIGNING_ALGO env)]))"

text \<open>The \<open>catch\<close> of \<open>executeConveyorVerificationRequest\<close>; \<open>st\<close> is
  \<open>response?.status\<close>, \<open>None\<close> while \<open>response\<close> is not assigned yet.\<close>

definition caught :: "string \<Rightarrow> nat option \<Rightarrow> ApiResult" where
  "caught m st =
     \<lparr>error = Some (JObj [(''message'', JStr m)]),
      data = None,
      api_status = (case st of None \<Rightarrow> 500 | Some s \<Rightarrow> s)\<rparr>"

definition verification_request :: "Env \<Rightarrow> string \<Rightarrow> FetchRequest" where
  "verification_request env cookieHeader =
     \<lparr>fq_url = CONVEYOR_API_URL env @ ''/api/'' @ CONVEYOR_API_VERSION env @ ''/order/verify'',
      fq_method = ''GET'',
      fq_headers = [(''cookie'', cookieHeader)]\<rparr>"

definition executeConveyorVerificationRequest ::
  "Platform \<Rightarrow> OrderMetadata \<Rightarrow> Env \<Rightarrow> ApiResult \<times> auth_call list" where
  "executeConveyorVerificationRequest P meta env =
     (case signJwt P meta env of
        (Throw m, cs) \<Rightarrow> (caught m None, cs)
      | (Return jwt, cs) \<Rightarrow>
          (case stringifyCookie P [(''jwt'', jwt)] of
             Throw m \<Rightarrow> (caught m None, cs)
           | Return cookieHeader \<Rightarrow>
               (let rq = verification_request env cookieHeader in
                case await (global_fetch P rq) of
                  Throw m \<Rightarrow> (caught m None, cs @ [Fetch rq])
                | Return response \<Rightarrow>
                    if fr_status response \<noteq> 200 then
                      (case fr_json response of
                         Throw m \<Rightarrow> (caught m (Some (fr_status response)), cs @ [Fetch rq])
                       | Return j \<Rightarrow>
                           (\<lparr>error = Some j, data = None, api_status = fr_status response\<rparr>,
                            cs @ [Fetch rq]))
                    else
                      (case fr_json response of
                         Throw m \<Rightarrow> (caught m (Some (fr_status response)), cs @ [Fetch rq])
                       | Return j \<Rightarrow>
                           (\<lparr>error = None, data = Some j, api_status = fr_status response\<rparr>,
                            cs @ [Fetch rq])))))"

text \<open>\<open>None\<close> is \<open>undefined\<close>: no \<open>cookie\<close> header, an empty one, or no cookie of
  that name in it.\<close>

definition extractJwtCookie :: "Platform \<Rightarrow> string \<Rightarrow> Headers \<Rightarrow> string option" where
  "extractJwtCookie P cookieName headers =
     (let cookies = parse P (case headers_get headers ''cookie'' of None \<Rightarrow> [] | Some c \<Rightarrow> c);
          cookie = headers_get headers ''cookie''
      in if cookie = None \<or> cookie = Some [] then None else cookies cookieName)"

text \<open>
  The result is what the promise of \<open>verifyRequest\<close> is resolved with, and the calls
  made on the way. \<open>!jwt\<close> holds for \<open>undefined\<close> and for the empty string.
\<close>

definition verifyRequest :: "Platform \<Rightarrow> Headers \<Rightarrow> Env \<Rightarrow> bool \<times> auth_call list" where
  "verifyRequest P headers env =
     (case extractJwtCookie P (COOKIE_NAME env) headers of
        None \<Rightarrow> (False, [])
      | Some jwt \<Rightarrow>
          if jwt = [] then (False, [])
          else
            (let vc = Verify jwt (CLOUDFLARE_WORKER_PUBLIC_KEY env)
                        (CLOUDFLARE_WORKER_SIGNING_ALGO env) in
             case verify P jwt (CLOUDFLARE_WORKER_PUBLIC_KEY env)
                    (CLOUDFLARE_WORKER_SIGNING_ALGO env) of
               None \<Rightarrow> (False, [vc])
             | Some verified \<Rightarrow>
                 (let subject = sub (payload verified);
                      aud' = aud (payload verified);
                      realm' = realm (payload verified);
                      client_id' = client_id (may_act (payload verified))
                  in if client_id' \<noteq> AUTHORIZED_CLIENT_ID env
                        \<or> realm' \<noteq> AUTHORIZED_REALM env
                        \<or> aud' \<noteq> Some (aUTHORIZED_AUDIENCE env)
                        \<or> subject \<noteq> AUTHORIZED_SUBJECT env
                     then (False, [vc])
                     else
                       (case executeConveyorVerificationRequest P (addl (payload verified)) env of
                          (response, cs) \<Rightarrow>
                            if isApiError response then (False, vc # cs)
                            else (True, vc # cs)))))"

text \<open>Whether a call of the pipeline uses the key the configuration names for its
  direction: the public key to verify, the private key to sign.\<close>

definition uses_configured_key :: "Env \<Rightarrow> auth_call \<Rightarrow> bool" where
  "uses_configured_key env c =
     (case c of
        Verify t k a \<Rightarrow>
          k = CLOUDFLARE_WORKER_PUBLIC_KEY env \<and> a = CLOUDFLARE_WORKER_SIGNING_ALGO env
      | Sign cl k a \<Rightarrow>
          k = CLOUDFLARE_WORKER_PRIVATE_KEY env \<and> a = CLOUDFLARE_WORKER_SIGNING_ALGO env
      | Fetch rq \<Rightarrow> True)"

section \<open>\<open>parseInt\<close>\<close>

text \<open>
  \<open>parseInt(s)\<close> with no radix, as ECMAScript defines it. The leading white space
  and line terminators are trimmed, then an optional sign is read, then \<open>0x\<close> or
  \<open>0X\<close> selects radix 16 (radix 10 otherwise), and the longest prefix of digits of
  that radix is read; what follows the digits is ignored, and no digit at all gives
  \<open>NaN\<close>. The integer read is rounded to a double.

  A string of the model holds the UTF-8 bytes of the JavaScript string, so a code point
  beyond ASCII is the sequence of its bytes. \<open>white_space\<close> lists the code points
  that \<open>TrimString\<close> removes: TAB, LF, VT, FF, CR, SP, U+00A0, U+1680, U+2000 to
  U+200A, U+2028, U+2029, U+202F, U+205F, U+3000 and U+FEFF.
\<close>

definition white_space :: "string list" where
  "white_space =
     [[CHR 0x09], [CHR 0x0A], [CHR 0x0B], [CHR 0x0C], [CHR 0x0D], [CHR 0x20],
      [CHR 0xC2, CHR 0xA0],
      [CHR 0xE1, CHR 0x9A, CHR 0x80],
      [CHR 0xE2, CHR 0x80, CHR 0x80], [CHR 0xE2, CHR 0x80, CHR 0x81],
      [CHR 0xE2, CHR 0x80, CHR 0x82], [CHR 0xE2, CHR 0x80, CHR 0x83],
      [CHR 0xE2, CHR 0x80, CHR 0x84], [CHR 0xE2, CHR 0x80, CHR 0x85],
      [CHR 0xE2, CHR 0x80, CHR 0x86], [CHR 0xE2, CHR 0x80, CHR 0x87],
      [CHR 0xE2, CHR 0x80, CHR 0x88], [CHR 0xE2, CHR 0x80, CHR 0x89],
      [CHR 0xE2, CHR 0x80, CHR 0x8A],
      [CHR 0xE2, CHR 0x80, CHR 0xA8], [CHR 0xE2, CHR 0x80, CHR 0xA9],
      [CHR 0xE2, CHR 0x80, CHR 0xAF],
      [CHR 0xE2, CHR 0x81, CHR 0x9F],
      [CHR 0xE3, CHR 0x80, CHR 0x80],
      [CHR 0xEF, CHR 0xBB, CHR 0xBF]]"

text \<open>The number of bytes of the white-space code point a string starts with, 0 when
  it starts with none.\<close>

definition white_length :: "string \<Rightarrow> nat" where
  "white_length s =
     (case find (\<lambda>w. take (length w) s = w) white_space of
        None \<Rightarrow> 0
      | Some w \<Rightarrow> length w)"

text \<open>\<open>TrimString(s, start)\<close>.\<close>

function trim_start :: "string \<Rightarrow> string" where
  "trim_start s = (if white_length s = 0 then s else trim_start (drop (white_length s) s))"
  by pat_completeness auto
termination
proof (relation "measure length")
  show "wf (measure length)" by simp
next
  fix s :: string
  assume "white_length s \<noteq> 0"
  moreover have "white_length [] = 0"
    by (simp add: white_length_def white_space_def)
  ultimately have "s \<noteq> []" by auto
  with \<open>white_length s \<noteq> 0\<close> show "(drop (white_length s) s, s) \<in> measure length"
    by simp
qed

declare trim_start.simps [simp del]

definition digit_value :: "char \<Rightarrow> nat option" where
  "digit_value c =
     (let n = (of_char c :: nat)
      in if 48 \<le> n \<and> n \<le> 57 then Some (n - 48)
         else if 97 \<le> n \<and> n \<le> 102 then Some (n - 87)
         else if 65 \<le> n \<and> n \<le> 70 then Some (n - 55)
         else None)"

definition is_digit :: "nat \<Rightarrow> char \<Rightarrow> bool" where
  "is_digit R c = (case digit_value c of None \<Rightarrow> False | Some v \<Rightarrow> v < R)"

definition digits_value :: "nat \<Rightarrow> string \<Rightarrow> nat" where
  "digits_value R Z = foldl (\<lambda>a c. a * R + (case digit_value c of None \<Rightarrow> 0 | Some v \<Rightarrow> v)) 0 Z"

text \<open>The number of binary digits of a natural number.\<close>

fun bit_length :: "nat \<Rightarrow> nat" where
  "bit_length n = (if n = 0 then 0 else Suc (bit_length (n div 2)))"

declare bit_length.simps [simp del]

text \<open>
  The double nearest to a natural number, ties to the even significand; \<open>None\<close> is
  \<open>Infinity\<close>. A number below \<open>2^53\<close> is a double. Otherwise the 53 leading
  binary digits are kept and rounded on what is cut off, and a result of \<open>2^1024\<close> or
  more overflows.
\<close>

definition to_double :: "nat \<Rightarrow> nat option" where
  "to_double n =
     (if n < 2 ^ 53 then Some n
      else
        (let e = bit_length n - 53;
             q = n div 2 ^ e;
             r = n mod 2 ^ e;
             half = 2 ^ (e - 1);
             q' = (if half < r \<or> (r = half \<and> odd q) then q + 1 else q)
         in if 2 ^ 1024 \<le> q' * 2 ^ e then None else Some (q' * 2 ^ e)))"

definition parseInt :: "string \<Rightarrow> js_number" where
  "parseInt inputString =
     (let S = trim_start inputString;
          sign = (if S \<noteq> [] \<and> hd S = CHR ''-'' then - 1 else (1::int));
          S1 = (if S \<noteq> [] \<and> (hd S = CHR ''+'' \<or> hd S = CHR ''-'') then tl S else S);
          hex = (take 2 S1 = ''0x'' \<or> take 2 S1 = ''0X'');
          R = (if hex then 16 else 10);
          S2 = (if hex then drop 2 S1 else S1);
          Z = takeWhile (is_digit R) S2
      in if Z = [] then NaN
         else
           (let mathInt = digits_value R Z
            in if mathInt = 0 then (if sign = - 1 then NegZero else Num 0)
               else
                 (case to_double mathInt of
                    None \<Rightarrow> (if sign = - 1 then NegInfinity else PosInfinity)
                  | Some v \<Rightarrow> Num (sign * int v))))"

section \<open>The request handler\<close>

text \<open>
  \<open>fetch\<close> gives the response, or the exception that leaves the handler, and the
  operations of the store it has called, in order. \<open>verifyRequest\<close> is called without
  \<open>await\<close>: the handler tests the promise, not what it is resolved with, and the
  calls of the pipeline are not part of the handler's own.
\<close>

definition fetch :: "Platform \<Rightarrow> Request \<Rightarrow> Env \<Rightarrow> Response outcome \<times> store_call list" where
  "fetch P request env =
     (if js_not (Resolved (fst (verifyRequest P (req_headers request) env))) then
        (Return (new_Response (TextBody ''Unauthorized'') 401), [])
      else
        (let bucket = BUCKET_NAME env;
             key = drop 1 (url_pathname request)
         in case searchParams_get request ''action'' of
              None \<Rightarrow> (Return (new_Response (TextBody ''Missing action type'') 400), [])
            | Some action \<Rightarrow>
                if req_method request = ''POST'' then
                  (if action = ''mpu-create'' then
                     (case await (createMultipartUpload bucket key) of
                        Throw m \<Rightarrow> (Throw m, [CreateMultipartUpload key])
                      | Return multipartUpload \<Rightarrow>
                          (Return (new_Response
                             (JsonBody (JObj
                                [(''key'', JStr (R2MultipartUpload.key multipartUpload)),
                                 (''uploadId'', JStr (R2MultipartUpload.uploadId multipartUpload))]))
                             200),
                           [CreateMultipartUpload key]))
                   else if action = ''mpu-complete'' then
                     (let uploadId = searchParams_get request ''uploadId''
                      in if uploadId = None then
                           (Return (new_Response (TextBody ''Missing uploadId'') 400), [])
                         else
                          (let multipartUpload = resumeMultipartUpload key (the uploadId);
                               cs = [ResumeMultipartUpload key (the uploadId)]
                           in case request_json P request of
                                Throw m \<Rightarrow> (Throw m, cs)
                              | Return completeBody \<Rightarrow>
                                  if completeBody = JNull then
                                    (Return (new_Response
                                       (TextBody ''Missing or incomplete body'') 400), cs)
                                  else
                                    (let parts = json_get completeBody ''parts'' in
                                     case await (complete bucket multipartUpload parts) of
                                       Throw m \<Rightarrow>
                                         (Return (new_Response (TextBody m) 400),
                                          cs @ [Complete multipartUpload parts])
                                     | Return object \<Rightarrow>
                                         (Return \<lparr>res_body = NullBody, status = 200,
                                                  res_headers = [(''etag'', httpEtag object)]\<rparr>,
                                          cs @ [Complete multipartUpload parts]))))
                   else
                     (Return (new_Response
                        (TextBody (''Unknown action '' @ action @ '' for POST'')) 400), []))
                else if req_method request = ''PUT'' then
                  (if action = ''mpu-uploadpart'' then
                     (let uploadId = searchParams_get request ''uploadId'';
                          partNumberString = searchParams_get request ''partNumber''
                      in if partNumberString = None \<or> uploadId = None then
                           (Return (new_Response
                              (TextBody ''Missing partNumber or uploadId'') 400), [])
                         else
                           (case req_body request of
                              None \<Rightarrow>
                                (Return (new_Response (TextBody ''Missing request body'') 400), [])
                            | Some request_body \<Rightarrow>
                                (let partNumber = parseInt (the partNumberString);
                                     multipartUpload = resumeMultipartUpload key (the uploadId);
                                     cs = [ResumeMultipartUpload key (the uploadId),
                                           UploadPart multipartUpload partNumber request_body]
                                 in case await (uploadPart bucket multipartUpload partNumber
                                                  request_body) of
                                      Throw m \<Rightarrow> (Return (new_Response (TextBody m) 400), cs)
                                    | Return uploadedPart \<Rightarrow>
                                        (Return (new_Response
                                           (JsonBody (JObj
                                              [(''partNumber'',
                                                number_json
                                                  (R2UploadedPart.partNumber uploadedPart)),
                                               (''etag'', JStr (etag uploadedPart))]))
                                           200), cs))))
                   else
                     (Return (new_Response
                        (TextBody (''Unknown action '' @ action @ '' for PUT'')) 400), []))
                else if req_method request = ''GET'' then
                  (if action \<noteq> ''get'' then
                     (Return (new_Response
                        (TextBody (''Unknown action '' @ action @ '' for GET'')) 400), [])
                   else
                     (case await (get bucket key) of
                        Throw m \<Rightarrow> (Throw m, [Get key])
                      | Return None \<Rightarrow>
                          (Return (new_Response (TextBody ''Object Not Found'') 404), [Get key])
                      | Return (Some object) \<Rightarrow>
                          (let headers = httpMetadata object;
                               headers1 = headers_set headers ''etag'' (httpEtag object)
                           in (Return \<lparr>res_body = StreamBody (body object), status = 200,
                                        res_headers = headers1\<rparr>,
                               [Get key]))))
                else if req_method request = ''DELETE'' then
                  (if action = ''mpu-abort'' then
                     (let uploadId = searchParams_get request ''uploadId''
                      in if uploadId = None then
                           (Return (new_Response (TextBody ''Missing uploadId'') 400), [])
                         else
                          (let multipartUpload = resumeMultipartUpload key (the uploadId);
                               cs = [ResumeMultipartUpload key (the uploadId),
                                     Abort multipartUpload]
                           in case abort bucket multipartUpload of
                                Throw m \<Rightarrow> (Return (new_Response (TextBody m) 400), cs)
                              | Return p \<Rightarrow> (Return (new_Response NullBody 204), cs)))
                   else if action = ''delete'' then
                     (case await (delete bucket key) of
                        Throw m \<Rightarrow> (Throw m, [Delete key])
                      | Return u \<Rightarrow> (Return (new_Response NullBody 204), [Delete key]))
                   else
                     (Return (new_Response
                        (TextBody (''Unknown action '' @ action @ '' for DELETE'')) 400), []))
                else
                  (Return \<lparr>res_body = TextBody ''Method Not Allowed'', status = 405,
                           res_headers = [(''Allow'', ''PUT, POST, GET, DELETE'')]\<rparr>, [])))"


section \<open>The token codec\<close>

text \<open>
  Modelled from the spec: the module \<open>./jwt\<close>, which holds \<open>sign\<close> and
  \<open>verify\<close>, is not among the sources. The spec describes a token as three
  dot-separated segments (header, payload, signature), each base64url-encoded; \<open>sign\<close>
  as a deterministic serialization of the claims plus a detached signature under an
  asymmetric algorithm; \<open>verify\<close> as failing, without an exception, on a malformed
  token, a signature mismatch, an algorithm mismatch or an unparseable payload. The
  signature primitive itself is a parameter: a signing function that fails on a malformed
  key and a checking function.
\<close>

record Signature_scheme =
  sig_sign :: "algorithm \<Rightarrow> string \<Rightarrow> string \<Rightarrow> string option"
  sig_check :: "algorithm \<Rightarrow> string \<Rightarrow> string \<Rightarrow> string \<Rightarrow> bool"

text \<open>
  Modelled from the spec: "matching keys". A private and a public key match under an
  algorithm when every message can be signed with the first and the signature checks
  with the second.
\<close>

definition matching_keys :: "Signature_scheme \<Rightarrow> algorithm \<Rightarrow> string \<Rightarrow> string \<Rightarrow> bool" where
  "matching_keys S a priv pub =
     (\<forall>m. \<exists>s. sig_sign S a priv m = Some s \<and> sig_check S a pub m s)"

subsection \<open>base64url\<close>

text \<open>Modelled from the spec: the base64url alphabet of a token's segments.\<close>

definition b64_alphabet :: string where
  "b64_alphabet = ''ABCDEFGHIJKLMNOPQRSTUVWXYZabcdefghijklmnopqrstuvwxyz0123456789-_''"

text \<open>Modelled from the spec: base64url, bytes regrouped into 6-bit values, no padding.\<close>

fun sextets :: "nat list \<Rightarrow> nat list" where
  "sextets (a # b # c # r) =
     [a div 4, (a mod 4) * 16 + b div 16, (b mod 16) * 4 + c div 64, c mod 64] @ sextets r"
| "sextets [a, b] = [a div 4, (a mod 4) * 16 + b div 16, (b mod 16) * 4]"
| "sextets [a] = [a div 4, (a mod 4) * 16]"
| "sextets [] = []"

text \<open>Modelled from the spec: base64url decoding, 6-bit values regrouped into bytes;
  a single left-over value is malformed.\<close>

fun octets :: "nat list \<Rightarrow> nat list option" where
  "octets (w # x # y # z # r) =
     map_option (\<lambda>bs. [w * 4 + x div 16, (x mod 16) * 16 + y div 4, (y mod 4) * 64 + z] @ bs)
       (octets r)"
| "octets [w, x, y] = Some [w * 4 + x div 16, (x mod 16) * 16 + y div 4]"
| "octets [w, x] = Some [w * 4 + x div 16]"
| "octets [w] = None"
| "octets [] = Some []"

text \<open>Modelled from the spec: the position of a character in the alphabet, \<open>None\<close>
  for a character that is not of it.\<close>

fun index_of :: "'a \<Rightarrow> 'a list \<Rightarrow> nat option" where
  "index_of x [] = None"
| "index_of x (y # ys) = (if x = y then Some 0 else map_option Suc (index_of x ys))"

text \<open>Modelled from the spec: the base64url encoding of a segment.\<close>

definition b64url_encode :: "string \<Rightarrow> string" where
  "b64url_encode s = map (\<lambda>n. b64_alphabet ! n) (sextets (map of_char s))"

text \<open>Modelled from the spec: the 6-bit values of an encoded segment; a character outside
  the alphabet makes the segment malformed.\<close>

fun b64_values :: "string \<Rightarrow> nat list option" where
  "b64_values [] = Some []"
| "b64_values (c # cs) =
     (case index_of c b64_alphabet of
        None \<Rightarrow> None
      | Some n \<Rightarrow> map_option ((#) n) (b64_values cs))"

text \<open>Modelled from the spec: the decoding of a segment, \<open>None\<close> when it is malformed.\<close>

definition b64url_decode :: "string \<Rightarrow> string option" where
  "b64url_decode t =
     (case b64_values t of
        None \<Rightarrow> None
      | Some ns \<Rightarrow> map_option (map char_of) (octets ns))"

subsection \<open>The serialization of the claims\<close>

text \<open>Modelled from the spec: numbers of the deterministic serialization, in decimal.\<close>

fun show_nat :: "nat \<Rightarrow> string" where
  "show_nat n =
     (if n < 10 then [char_of (48 + n)]
      else show_nat (n div 10) @ [char_of (48 + n mod 10)])"

declare show_nat.simps [simp del]

text \<open>Modelled from the spec: reading a decimal number back; \<open>None\<close> when the text is
  not one.\<close>

definition read_nat :: "string \<Rightarrow> nat option" where
  "read_nat s = (if s \<noteq> [] \<and> list_all (is_digit 10) s then Some (digits_value 10 s) else None)"

text \<open>Modelled from the spec: the timestamps \<open>nbf\<close> and \<open>iat\<close>, integers in decimal.\<close>

definition show_int :: "int \<Rightarrow> string" where
  "show_int i = (if i < 0 then CHR ''-'' # show_nat (nat (- i)) else show_nat (nat i))"

text \<open>Modelled from the spec: reading a timestamp back.\<close>

definition read_int :: "string \<Rightarrow> int option" where
  "read_int s =
     (case s of
        [] \<Rightarrow> None
      | c # cs \<Rightarrow>
          if c = CHR ''-'' then map_option (\<lambda>n. - int n) (read_nat cs)
          else map_option int (read_nat s))"

text \<open>Modelled from the spec: a field of the deterministic serialization, written as
  its length, a colon and its characters.\<close>

definition enc_field :: "string \<Rightarrow> string" where
  "enc_field s = show_nat (length s) @ CHR '':'' # s"

text \<open>Modelled from the spec: reading one field and what follows it; \<open>None\<close> when the
  text does not start with a field.\<close>

definition dec_field :: "string \<Rightarrow> (string \<times> string) option" where
  "dec_field t =
     (case read_nat (takeWhile (is_digit 10) t) of
        None \<Rightarrow> None
      | Some n \<Rightarrow>
          (case dropWhile (is_digit 10) t of
             [] \<Rightarrow> None
           | c # r \<Rightarrow>
               if c = CHR '':'' \<and> n \<le> length r then Some (take n r, drop n r) else None))"

text \<open>Modelled from the spec: reading a given number of fields.\<close>

primrec dec_fields :: "nat \<Rightarrow> string \<Rightarrow> (string list \<times> string) option" where
  "dec_fields 0 t = Some ([], t)"
| "dec_fields (Suc k) t =
     (case dec_field t of
        None \<Rightarrow> None
      | Some (f, r) \<Rightarrow>
          (case dec_fields k r of
             None \<Rightarrow> None
           | Some (fs, r') \<Rightarrow> Some (f # fs, r')))"

text \<open>Modelled from the spec: the enumeration values of \<open>orderStatus\<close>, as the spec
  lists them.\<close>

fun status_name :: "OrderStatus \<Rightarrow> string" where
  "status_name created = ''created''"
| "status_name accepted = ''accepted''"
| "status_name queued = ''queued''"
| "status_name work_started = ''work_started''"
| "status_name work_completed = ''work_completed''"
| "status_name delivered = ''delivered''"
| "status_name pending = ''pending''"
| "status_name declined = ''declined''"

text \<open>Modelled from the spec: reading an \<open>orderStatus\<close> back.\<close>

definition status_of :: "string \<Rightarrow> OrderStatus option" where
  "status_of s =
     map_of (map (\<lambda>st. (status_name st, st))
       [created, accepted, queued, work_started, work_completed, delivered, pending, declined]) s"

text \<open>Modelled from the spec: the optional \<open>aud\<close>, absent or present.\<close>

definition show_aud :: "string option \<Rightarrow> string" where
  "show_aud a = (case a of None \<Rightarrow> ''-'' | Some s \<Rightarrow> CHR ''+'' # s)"

text \<open>Modelled from the spec: reading \<open>aud\<close> back.\<close>

definition read_aud :: "string \<Rightarrow> string option option" where
  "read_aud s =
     (case s of
        [] \<Rightarrow> None
      | c # cs \<Rightarrow>
          if c = CHR ''+'' then Some (Some cs)
          else if s = ''-'' then Some None
          else None)"

text \<open>Modelled from the spec: the fields of the deterministic serialization of a claim
  set, in a fixed order; the last one is the number of song ids.\<close>

definition claims_fields :: "Claims \<Rightarrow> string list" where
  "claims_fields c =
     [realm c, sub c, client_id (may_act c), show_int (nbf c), show_int (iat c),
      orderId (addl c), orderCartId (addl c), status_name (orderStatus (addl c)),
      show_aud (aud c), show_nat (length (orderSongIds (addl c)))]"

text \<open>Modelled from the spec: the serialized claim set, the fixed fields and then the
  song ids, each written as a field.\<close>

definition serialize_claims :: "Claims \<Rightarrow> string" where
  "serialize_claims c =
     concat (map enc_field (claims_fields c)) @ concat (map enc_field (orderSongIds (addl c)))"

text \<open>Modelled from the spec: the payload is well formed when it is the serialization
  of a claim set, with nothing left over.\<close>

definition parse_claims :: "string \<Rightarrow> Claims option" where
  "parse_claims t =
     (case dec_fields 10 t of
        Some ([r, s, cid, nb, ia, oid, ocid, st, au, cnt], rest) \<Rightarrow>
          (case (read_int nb, read_int ia, status_of st, read_aud au, read_nat cnt) of
             (Some nb', Some ia', Some st', Some au', Some n) \<Rightarrow>
               (case dec_fields n rest of
                  Some (songs, []) \<Rightarrow>
                    Some \<lparr>realm = r, sub = s, may_act = \<lparr>client_id = cid\<rparr>, nbf = nb',
                          iat = ia',
                          addl = \<lparr>orderId = oid, orderCartId = ocid, orderSongIds = songs,
                                   orderStatus = st'\<rparr>,
                          aud = au'\<rparr>
                | _ \<Rightarrow> None)
           | _ \<Rightarrow> None)
      | _ \<Rightarrow> None)"

subsection \<open>\<open>sign\<close> and \<open>verify\<close>\<close>

text \<open>Modelled from the spec: the header of a token names its algorithm.\<close>

fun alg_name :: "algorithm \<Rightarrow> string" where
  "alg_name RS256 = ''RS256''"
| "alg_name RS384 = ''RS384''"
| "alg_name RS512 = ''RS512''"

text \<open>Modelled from the spec: what is signed, the encoded header (the algorithm) and the
  encoded payload joined by a dot.\<close>

definition signing_input :: "Claims \<Rightarrow> algorithm \<Rightarrow> string" where
  "signing_input c a =
     b64url_encode (alg_name a) @ CHR ''.'' # b64url_encode (serialize_claims c)"

text \<open>Modelled from the spec: \<open>sign(claims, privateKey, algorithm)\<close>, the serialized
  claims plus a detached signature; it fails with \<open>SigningError\<close> when the key is
  malformed.\<close>

definition codec_sign ::
  "Signature_scheme \<Rightarrow> Claims \<Rightarrow> string \<Rightarrow> algorithm \<Rightarrow> string promise outcome" where
  "codec_sign S c privateKey a =
     (case sig_sign S a privateKey (signing_input c a) of
        None \<Rightarrow> Return (Rejected ''SigningError'')
      | Some sg \<Rightarrow> Return (Resolved (signing_input c a @ CHR ''.'' # b64url_encode sg)))"

text \<open>Modelled from the spec: the dot-separated segments of a token.\<close>

fun split_on :: "char \<Rightarrow> string \<Rightarrow> string list" where
  "split_on d [] = [[]]"
| "split_on d (c # cs) =
     (if c = d then [] # split_on d cs
      else (case split_on d cs of [] \<Rightarrow> [[c]] | x # xs \<Rightarrow> (c # x) # xs))"

text \<open>Modelled from the spec: \<open>verify(token, publicKey, algorithm)\<close>. \<open>None\<close> is the
  failure: a token that is not three base64url segments, an algorithm other than the
  header's, a signature that does not check, a payload that does not parse. Neither
  expiry nor audience is checked.\<close>

definition codec_verify ::
  "Signature_scheme \<Rightarrow> string \<Rightarrow> string \<Rightarrow> algorithm \<Rightarrow> JwtData option" where
  "codec_verify S token publicKey a =
     (case split_on (CHR ''.'') token of
        [h, p, s] \<Rightarrow>
          (case (b64url_decode h, b64url_decode p, b64url_decode s) of
             (Some header, Some pl, Some sg) \<Rightarrow>
               if header \<noteq> alg_name a then None
               else if \<not> sig_check S a publicKey (h @ CHR ''.'' # p) sg then None
               else (case parse_claims pl of
                       None \<Rightarrow> None
                     | Some c \<Rightarrow> Some \<lparr>payload = c\<rparr>)
           | _ \<Rightarrow> None)
      | _ \<Rightarrow> None)"

text \<open>
  A symbolic signature scheme to run the codec on: the key material names its pair
  (\<open>private:k\<close>, \<open>public:k\<close>) and a signature records the pair, the algorithm and
  the message.
\<close>

definition symbolic_scheme :: Signature_scheme where
  "symbolic_scheme =
     \<lparr>sig_sign = (\<lambda>a priv m.
        if take 8 priv = ''private:'' then Some (drop 8 priv @ CHR '':'' # alg_name a @ CHR '':'' # m)
        else None),
      sig_check = (\<lambda>a pub m s.
        take 7 pub = ''public:'' \<and> s = drop 7 pub @ CHR '':'' # alg_name a @ CHR '':'' # m)\<rparr>"

section \<open>A test double of the platform\<close>

text \<open>
  A configuration, a platform and a store to run the handler on. The platform accepts
  the token \<open>good\<close> under the configured public key and answers the verification
  call with status 200; the store knows the upload \<open>u1\<close> only, and takes the part
  numbers 1 to 10000.
\<close>

definition test_meta :: OrderMetadata where
  "test_meta = \<lparr>orderId = ''o1'', orderCartId = ''c1'', orderSongIds = [''s1'', ''s2''],
                 orderStatus = accepted\<rparr>"

definition test_claims :: Claims where
  "test_claims = \<lparr>realm = ''orders'', sub = ''conveyor'', may_act = \<lparr>client_id = ''web''\<rparr>,
                   nbf = 0, iat = 0, addl = test_meta, aud = Some ''uploads''\<rparr>"

definition test_bucket :: R2Bucket where
  "test_bucket =
     \<lparr>createMultipartUpload = (\<lambda>k. Return (Resolved \<lparr>key = k, uploadId = ''u1''\<rparr>)),
      uploadPart = (\<lambda>h n b.
        if uploadId h = ''u1'' \<and> (case n of Num i \<Rightarrow> 1 \<le> i \<and> i \<le> 10000 | _ \<Rightarrow> False)
        then Return (Resolved \<lparr>partNumber = n, etag = ''e1''\<rparr>)
        else Return (Rejected ''The specified multipart upload does not exist.'')),
      complete = (\<lambda>h ps.
        if uploadId h = ''u1''
        then Return (Resolved \<lparr>httpMetadata = [], httpEtag = ''e-all''\<rparr>)
        else Return (Rejected ''The specified multipart upload does not exist.'')),
      abort = (\<lambda>h.
        if uploadId h = ''u1'' then Return (Resolved ())
        else Return (Rejected ''The specified multipart upload does not exist.'')),
      get = (\<lambda>k. Return (Resolved None)),
      delete = (\<lambda>k. Return (Resolved ()))\<rparr>"

definition test_env :: Env where
  "test_env =
     \<lparr>BUCKET_NAME = test_bucket,
      COOKIE_NAME = ''jwt'',
      AUTHORIZED_SUBJECT = ''conveyor'',
      AUTHORIZED_REALM = ''orders'',
      AUTHORIZED_CLIENT_ID = ''web'',
      aUTHORIZED_AUDIENCE = ''uploads'',
      CLOUDFLARE_WORKER_PRIVATE_KEY = ''PRIVATE'',
      CLOUDFLARE_WORKER_PUBLIC_KEY = ''PUBLIC'',
      CLOUDFLARE_WORKER_AUD = ''conveyor-api'',
      CLOUDFLARE_WORKER_REALM = ''workers'',
      CLOUDFLARE_WORKER_SUB = ''upload-worker'',
      CLOUDFLARE_WORKER_CLIENT_ID = ''worker'',
      CLOUDFLARE_WORKER_SIGNING_ALGO = RS512,
      CONVEYOR_API_URL = ''https://conveyor.test'',
      CONVEYOR_API_VERSION = ''v1''\<rparr>"

definition test_platform :: Platform where
  "test_platform =
     \<lparr>parse = (\<lambda>s name.
        if s = ''jwt=good'' \<and> name = ''jwt'' then Some ''good''
        else if s = ''jwt=other'' \<and> name = ''jwt'' then Some ''other''
        else None),
      stringifyCookie = (\<lambda>cs. Return (concat (map (\<lambda>p. fst p @ ''='' @ snd p) cs))),
      verify = (\<lambda>jwt k a.
        if jwt = ''good'' \<and> k = ''PUBLIC'' \<and> a = RS512 then Some \<lparr>payload = test_claims\<rparr>
        else if jwt = ''other'' \<and> k = ''PUBLIC'' \<and> a = RS512
        then Some \<lparr>payload = test_claims\<lparr>sub := ''someone-else''\<rparr>\<rparr>
        else None),
      sign = (\<lambda>c k a. Return (Resolved ''signed'')),
      Date_now = 1700000000000,
      global_fetch = (\<lambda>rq.
        Return (Resolved \<lparr>fr_status = 200, fr_json = Return (JObj [(''message'', JStr ''OK'')])\<rparr>)),
      JSON_parse = (\<lambda>s.
        if s = ''null'' then Return JNull
        else if s = ''{}'' then Return (JObj [])
        else Throw ''Unexpected token'')\<rparr>"

definition test_request :: Request where
  "test_request =
     \<lparr>req_method = ''GET'', url_pathname = ''/song.wav'', url_searchParams = [(''action'', ''get'')],
      req_headers = [], req_body = None\<rparr>"

text \<open>The platform whose verification service answers \<open>r\<close> to every call.\<close>

definition answering :: "FetchResponse promise outcome \<Rightarrow> Platform" where
  "answering r = test_platform\<lparr>global_fetch := (\<lambda>rq. r)\<rparr>"


definition complete_request :: "string option \<Rightarrow> Request" where
  "complete_request b =
     \<lparr>req_method = ''POST'', url_pathname = ''/song.wav'',
      url_searchParams = [(''action'', ''mpu-complete''), (''uploadId'', ''u1'')],
      req_headers = [], req_body = b\<rparr>"

definition abort_request :: "string \<Rightarrow> Request" where
  "abort_request u =
     \<lparr>req_method = ''DELETE'', url_pathname = ''/song.wav'',
      url_searchParams = [(''action'', ''mpu-abort''), (''uploadId'', u)],
      req_headers = [], req_body = None\<rparr>"

definition no_action_request :: "string \<Rightarrow> Request" where
  "no_action_request m =
     \<lparr>req_method = m, url_pathname = ''/song.wav'', url_searchParams = [(''uploadId'', ''u1'')],
      req_headers = [], req_body = Some ''bytes''\<rparr>"

text \<open>The status of the response, \<open>None\<close> when an exception leaves the handler.\<close>

definition response_status :: "Response outcome \<Rightarrow> nat option" where
  "response_status r = (case r of Throw m \<Rightarrow> None | Return res \<Rightarrow> Some (status res))"

text \<open>
  A platform that runs the codec over the symbolic scheme, and a configuration whose
  verification key and signing key are the two halves of one pair, \<open>k1\<close>.
  \<open>inbound_token\<close> is \<open>test_claims\<close> signed with the private key of that pair.
\<close>

definition codec_platform :: Platform where
  "codec_platform =
     test_platform
       \<lparr>parse := (\<lambda>s name.
          if take (length name + 1) s = name @ ''='' then Some (drop (length name + 1) s)
          else None),
        verify := codec_verify symbolic_scheme,
        sign := codec_sign symbolic_scheme\<rparr>"

definition shared_key_env :: Env where
  "shared_key_env =
     test_env\<lparr>CLOUDFLARE_WORKER_PRIVATE_KEY := ''private:k1'',
              CLOUDFLARE_WORKER_PUBLIC_KEY := ''public:k1''\<rparr>"

definition inbound_token :: string where
  "inbound_token = ''UlM1MTI.NjpvcmRlcnM4OmNvbnZleW9yMzp3ZWIxOjAxOjAyOm8xMjpjMTg6YWNjZXB0ZWQ4Oit1cGxvYWRzMToyMjpzMTI6czI.azE6UlM1MTI6VWxNMU1USS5OanB2Y21SbGNuTTRPbU52Ym5abGVXOXlNenAzWldJeE9qQXhPakF5T204eE1qcGpNVGc2WVdOalpYQjBaV1E0T2l0MWNHeHZZV1J6TVRveU1qcHpNVEk2Y3pJ''"

section \<open>Properties of the authorization pipeline\<close>

lemmas test_defs = answering_def test_platform_def test_env_def test_claims_def test_meta_def
  test_bucket_def test_request_def

lemmas fetch_defs = fetch_def js_not_def new_Response_def searchParams_get_def
  resumeMultipartUpload_def

text \<open>
  C3. A request with no \<open>cookie\<close> header, or whose \<open>cookie\<close> header holds no cookie
  of the configured name, is denied, and the pipeline makes no call at all: no
  verification of a token, no signing, no request to the verification service.
\<close>

theorem verifyRequest_no_cookie_denies:
  assumes "case headers_get headers ''cookie'' of
             None \<Rightarrow> True
           | Some c \<Rightarrow> parse P c (COOKIE_NAME env) = None"
  shows "verifyRequest P headers env = (False, [])"
  using assms
  by (auto simp: verifyRequest_def extractJwtCookie_def Let_def split: option.splits)

theorem verifyRequest_no_cookie_denies_witness:
  "verifyRequest test_platform [] test_env = (False, [])
   \<and> verifyRequest test_platform [(''cookie'', ''session=abc'')] test_env = (False, [])"
  using verifyRequest_no_cookie_denies
      [where headers = "[]" and P = test_platform and env = test_env]
    verifyRequest_no_cookie_denies
      [where headers = "[(''cookie'', ''session=abc'')]" and P = test_platform and env = test_env]
  by (simp add: headers_get_def test_platform_def test_env_def)

text \<open>
  C2. A token that the codec verifies, but whose \<open>sub\<close>, \<open>realm\<close>, \<open>aud\<close> or
  \<open>may_act.client_id\<close> differs from the configured identity, is denied; the only
  call made is the local verification of the token, so nothing is signed and the
  verification service is not called.
\<close>

theorem verifyRequest_identity_mismatch_denies:
  assumes "extractJwtCookie P (COOKIE_NAME env) headers = Some jwt"
    and "jwt \<noteq> []"
    and "verify P jwt (CLOUDFLARE_WORKER_PUBLIC_KEY env) (CLOUDFLARE_WORKER_SIGNING_ALGO env)
           = Some verified"
    and "sub (payload verified) \<noteq> AUTHORIZED_SUBJECT env
         \<or> realm (payload verified) \<noteq> AUTHORIZED_REALM env
         \<or> aud (payload verified) \<noteq> Some (aUTHORIZED_AUDIENCE env)
         \<or> client_id (may_act (payload verified)) \<noteq> AUTHORIZED_CLIENT_ID env"
  shows "verifyRequest P headers env =
           (False, [Verify jwt (CLOUDFLARE_WORKER_PUBLIC_KEY env)
                      (CLOUDFLARE_WORKER_SIGNING_ALGO env)])"
  using assms by (auto simp: verifyRequest_def Let_def)

theorem verifyRequest_identity_mismatch_denies_witness:
  "verifyRequest test_platform [(''cookie'', ''jwt=other'')] test_env =
     (False, [Verify ''other'' ''PUBLIC'' RS512])"
  using verifyRequest_identity_mismatch_denies
    [where P = test_platform and env = test_env and headers = "[(''cookie'', ''jwt=other'')]"
       and jwt = "''other''"
       and verified = "\<lparr>payload = test_claims\<lparr>sub := ''someone-else''\<rparr>\<rparr>"]
  by (simp add: extractJwtCookie_def headers_get_def test_platform_def test_env_def
      test_claims_def)

text \<open>
  The result of the verification call is no error exactly when the outbound token was
  signed, the cookie header built, and the call returned a response of status 200 whose
  body is JSON.
\<close>

lemma executeConveyorVerificationRequest_success:
  "\<not> isApiError (fst (executeConveyorVerificationRequest P meta env)) \<longleftrightarrow>
     (\<exists>token cookieHeader response j.
        fst (signJwt P meta env) = Return token
        \<and> stringifyCookie P [(''jwt'', token)] = Return cookieHeader
        \<and> await (global_fetch P (verification_request env cookieHeader)) = Return response
        \<and> fr_status response = 200 \<and> fr_json response = Return j)"
  by (cases "signJwt P meta env")
     (auto simp: executeConveyorVerificationRequest_def isApiError_def caught_def Let_def
           split: outcome.splits)

text \<open>
  C4. \<open>verifyRequest\<close> allows exactly when the token is present, verified and of the
  configured identity, the outbound token is signed, and the verification call returns
  a response of status 200 with a JSON body. So every other outcome of that call (a
  thrown or rejected call, a status other than 200, a body that is not JSON) denies, and
  so does every failure before it: nothing but an explicit success allows.
\<close>

theorem verifyRequest_allows_iff_remote_success:
  "fst (verifyRequest P headers env) \<longleftrightarrow>
     (\<exists>jwt verified token cookieHeader response j.
        extractJwtCookie P (COOKIE_NAME env) headers = Some jwt \<and> jwt \<noteq> []
        \<and> verify P jwt (CLOUDFLARE_WORKER_PUBLIC_KEY env) (CLOUDFLARE_WORKER_SIGNING_ALGO env)
            = Some verified
        \<and> sub (payload verified) = AUTHORIZED_SUBJECT env
        \<and> realm (payload verified) = AUTHORIZED_REALM env
        \<and> aud (payload verified) = Some (aUTHORIZED_AUDIENCE env)
        \<and> client_id (may_act (payload verified)) = AUTHORIZED_CLIENT_ID env
        \<and> fst (signJwt P (addl (payload verified)) env) = Return token
        \<and> stringifyCookie P [(''jwt'', token)] = Return cookieHeader
        \<and> await (global_fetch P (verification_request env cookieHeader)) = Return response
        \<and> fr_status response = 200 \<and> fr_json response = Return j)"
proof -
  have "fst (verifyRequest P headers env) \<longleftrightarrow>
     (\<exists>jwt verified.
        extractJwtCookie P (COOKIE_NAME env) headers = Some jwt \<and> jwt \<noteq> []
        \<and> verify P jwt (CLOUDFLARE_WORKER_PUBLIC_KEY env) (CLOUDFLARE_WORKER_SIGNING_ALGO env)
            = Some verified
        \<and> sub (payload verified) = AUTHORIZED_SUBJECT env
        \<and> realm (payload verified) = AUTHORIZED_REALM env
        \<and> aud (payload verified) = Some (aUTHORIZED_AUDIENCE env)
        \<and> client_id (may_act (payload verified)) = AUTHORIZED_CLIENT_ID env
        \<and> \<not> isApiError
              (fst (executeConveyorVerificationRequest P (addl (payload verified)) env)))"
    by (auto simp: verifyRequest_def Let_def split: option.splits prod.splits)
  then show ?thesis
    unfolding executeConveyorVerificationRequest_success by blast
qed

theorem verifyRequest_allows_iff_remote_success_witness:
  "\<not> fst (verifyRequest
            (answering (Return (Resolved \<lparr>fr_status = 500, fr_json = Return JNull\<rparr>)))
            [(''cookie'', ''jwt=good'')] test_env)
   \<and> \<not> fst (verifyRequest
            (answering (Return (Resolved
               \<lparr>fr_status = 403,
                fr_json = Return (JObj [(''error'', JObj [(''message'', JStr ''no'')])])\<rparr>)))
            [(''cookie'', ''jwt=good'')] test_env)
   \<and> \<not> fst (verifyRequest (answering (Return (Rejected ''connection reset'')))
            [(''cookie'', ''jwt=good'')] test_env)
   \<and> \<not> fst (verifyRequest (test_platform\<lparr>verify := (\<lambda>t k a. None)\<rparr>)
            [(''cookie'', ''jwt=good'')] test_env)
   \<and> \<not> fst (verifyRequest (test_platform\<lparr>sign := (\<lambda>c k a. Return (Rejected ''SigningError''))\<rparr>)
            [(''cookie'', ''jwt=good'')] test_env)
   \<and> fst (verifyRequest test_platform [(''cookie'', ''jwt=good'')] test_env)"
proof -
  note inst = verifyRequest_allows_iff_remote_success
    [where env = test_env and headers = "[(''cookie'', ''jwt=good'')]"]
  note eval = test_defs extractJwtCookie_def headers_get_def signJwt_def
  have a: "\<not> fst (verifyRequest
            (answering (Return (Resolved \<lparr>fr_status = 500, fr_json = Return JNull\<rparr>)))
            [(''cookie'', ''jwt=good'')] test_env)"
    using inst [where P = "answering (Return (Resolved \<lparr>fr_status = 500, fr_json = Return JNull\<rparr>))"]
    by (simp add: eval)
  have b: "\<not> fst (verifyRequest
            (answering (Return (Resolved
               \<lparr>fr_status = 403,
                fr_json = Return (JObj [(''error'', JObj [(''message'', JStr ''no'')])])\<rparr>)))
            [(''cookie'', ''jwt=good'')] test_env)"
    using inst [where P = "answering (Return (Resolved
               \<lparr>fr_status = 403,
                fr_json = Return (JObj [(''error'', JObj [(''message'', JStr ''no'')])])\<rparr>))"]
    by (simp add: eval)
  have c: "\<not> fst (verifyRequest (answering (Return (Rejected ''connection reset'')))
            [(''cookie'', ''jwt=good'')] test_env)"
    using inst [where P = "answering (Return (Rejected ''connection reset''))"]
    by (simp add: eval)
  have d: "\<not> fst (verifyRequest (test_platform\<lparr>verify := (\<lambda>t k a. None)\<rparr>)
            [(''cookie'', ''jwt=good'')] test_env)"
    using inst [where P = "test_platform\<lparr>verify := (\<lambda>t k a. None)\<rparr>"]
    by (simp add: eval)
  have e: "\<not> fst (verifyRequest
            (test_platform\<lparr>sign := (\<lambda>c k a. Return (Rejected ''SigningError''))\<rparr>)
            [(''cookie'', ''jwt=good'')] test_env)"
    using inst [where P = "test_platform\<lparr>sign := (\<lambda>c k a. Return (Rejected ''SigningError''))\<rparr>"]
    by (simp add: eval)
  have f: "fst (verifyRequest test_platform [(''cookie'', ''jwt=good'')] test_env)"
    using inst [where P = test_platform]
    by (simp add: eval verification_request_def)
  from a b c d e f show ?thesis by blast
qed

section \<open>Properties of the request handler\<close>

text \<open>
  C1. The handler never answers 401: the test before the routing is made on the promise
  of \<open>verifyRequest\<close>, which is an object, so the branch that answers
  \<open>Unauthorized\<close> is never taken. A request with no token, which \<open>verifyRequest\<close>
  denies, is routed to the store all the same.
\<close>

theorem fetch_never_unauthorized:
  "response_status (fst (fetch P request env)) \<noteq> Some 401"
proof (cases "searchParams_get request ''action''")
  case None
  then show ?thesis
    by (simp add: fetch_def js_not_def new_Response_def response_status_def Let_def)
next
  case (Some action)
  note unfold = fetch_def js_not_def new_Response_def response_status_def Let_def
  consider (post) "req_method request = ''POST''" | (put) "req_method request = ''PUT''"
    | (get) "req_method request = ''GET''" | (del) "req_method request = ''DELETE''"
    | (other) "req_method request \<notin> {''POST'', ''PUT'', ''GET'', ''DELETE''}"
    by auto
  then show ?thesis
  proof cases
    case post
    with Some show ?thesis by (simp add: unfold split: option.split outcome.split)
  next
    case put
    with Some show ?thesis by (simp add: unfold split: option.split outcome.split)
  next
    case get
    with Some show ?thesis by (simp add: unfold split: option.split outcome.split)
  next
    case del
    with Some show ?thesis by (simp add: unfold split: option.split outcome.split)
  next
    case other
    with Some show ?thesis by (simp add: unfold)
  qed
qed

theorem fetch_never_unauthorized_witness:
  "\<not> fst (verifyRequest test_platform (req_headers test_request) test_env)
   \<and> response_status (fst (fetch test_platform test_request test_env)) = Some 404
   \<and> snd (fetch test_platform test_request test_env) = [Get ''song.wav'']"
  using fetch_never_unauthorized [of test_platform test_request test_env]
  by (simp add: fetch_defs response_status_def Let_def verifyRequest_def extractJwtCookie_def
      headers_get_def test_request_def test_env_def test_bucket_def)

text \<open>
  C10. A request with no \<open>action\<close> query parameter is answered 400 with the body
  \<open>Missing action type\<close>, whatever its method, and no operation of the store is
  called.
\<close>

theorem missing_action_rejected:
  assumes "searchParams_get request ''action'' = None"
  shows "fetch P request env =
           (Return (new_Response (TextBody ''Missing action type'') 400), [])"
  using assms by (simp add: fetch_defs Let_def)

theorem missing_action_rejected_witness:
  "fetch test_platform (no_action_request ''GET'') test_env =
     (Return \<lparr>res_body = TextBody ''Missing action type'', status = 400, res_headers = []\<rparr>, [])
   \<and> fetch test_platform (no_action_request ''PUT'') test_env =
     (Return \<lparr>res_body = TextBody ''Missing action type'', status = 400, res_headers = []\<rparr>, [])
   \<and> fetch test_platform (no_action_request ''POST'') test_env =
     (Return \<lparr>res_body = TextBody ''Missing action type'', status = 400, res_headers = []\<rparr>, [])
   \<and> fetch test_platform (no_action_request ''DELETE'') test_env =
     (Return \<lparr>res_body = TextBody ''Missing action type'', status = 400, res_headers = []\<rparr>, [])"
  using missing_action_rejected [of "no_action_request ''GET''" test_platform test_env]
    missing_action_rejected [of "no_action_request ''PUT''" test_platform test_env]
    missing_action_rejected [of "no_action_request ''POST''" test_platform test_env]
    missing_action_rejected [of "no_action_request ''DELETE''" test_platform test_env]
  by (simp add: searchParams_get_def no_action_request_def new_Response_def)

subsection \<open>What \<open>parseInt\<close> reads\<close>









text \<open>Some values: what follows the digits is ignored, the white space before them
  is trimmed, also beyond ASCII, and an integer that is no double is rounded to one.\<close>

lemmas parseInt_defs = parseInt_def trim_start.simps white_length_def white_space_def
  is_digit_def digit_value_def digits_value_def to_double_def Let_def

lemma parseInt_examples:
  "parseInt ''12abc'' = Num 12"
  "parseInt ''abc'' = NaN"
  "parseInt ''1.5'' = Num 1"
  "parseInt [CHR 0xC2, CHR 0xA0, CHR ''1'', CHR ''2''] = Num 12"
  "parseInt ''-0'' = NegZero"
  "parseInt ''0x1F'' = Num 31"
  by (simp_all add: parseInt_defs)

lemma parseInt_rounds: "parseInt ''9007199254740993'' = Num 9007199254740992"
  by (simp add: parseInt_defs bit_length.simps)

subsection \<open>Uploading a part\<close>




text \<open>
  C6. An \<open>mpu-complete\<close> request with an \<open>uploadId\<close> and no body is not answered
  400: \<open>request.json()\<close> is rejected before the test for a \<open>null\<close> body, nothing
  catches it, and the exception leaves the handler. The store's \<open>complete\<close> is not
  called.
\<close>

theorem complete_missing_body_throws:
  assumes "req_method request = ''POST''"
    and "searchParams_get request ''action'' = Some ''mpu-complete''"
    and "searchParams_get request ''uploadId'' = Some u"
    and "req_body request = None"
  shows "fetch P request env =
           (Throw ''Unexpected end of JSON input'',
            [ResumeMultipartUpload (drop 1 (url_pathname request)) u])"
  using assms by (simp add: fetch_defs request_json_def Let_def)

theorem complete_missing_body_throws_witness:
  "fetch test_platform (complete_request None) test_env =
     (Throw ''Unexpected end of JSON input'', [ResumeMultipartUpload ''song.wav'' ''u1''])
   \<and> response_status (fst (fetch test_platform (complete_request None) test_env)) \<noteq> Some 400
   \<and> fetch test_platform (complete_request (Some ''null'')) test_env =
     (Return \<lparr>res_body = TextBody ''Missing or incomplete body'', status = 400,
              res_headers = []\<rparr>,
      [ResumeMultipartUpload ''song.wav'' ''u1''])"
proof -
  have "fetch test_platform (complete_request None) test_env =
     (Throw ''Unexpected end of JSON input'', [ResumeMultipartUpload ''song.wav'' ''u1''])"
    using complete_missing_body_throws
      [where request = "complete_request None" and u = "''u1''" and P = test_platform
         and env = test_env]
    by (simp add: searchParams_get_def complete_request_def)
  moreover have "fetch test_platform (complete_request (Some ''null'')) test_env =
     (Return \<lparr>res_body = TextBody ''Missing or incomplete body'', status = 400,
              res_headers = []\<rparr>,
      [ResumeMultipartUpload ''song.wav'' ''u1''])"
    by (simp add: fetch_defs request_json_def complete_request_def test_platform_def Let_def)
  ultimately show ?thesis by (simp add: response_status_def)
qed

text \<open>
  C8. An \<open>mpu-abort\<close> request with an \<open>uploadId\<close> is answered 204 with an empty body
  whenever the call of \<open>abort\<close> returns its promise, also when the store rejects that
  promise: \<open>abort()\<close> is called without \<open>await\<close>, so only an exception thrown by the
  call itself reaches the \<open>catch\<close> that answers 400.
\<close>

theorem abort_rejection_not_caught:
  assumes "req_method request = ''DELETE''"
    and "searchParams_get request ''action'' = Some ''mpu-abort''"
    and "searchParams_get request ''uploadId'' = Some u"
    and "abort (BUCKET_NAME env) \<lparr>key = drop 1 (url_pathname request), uploadId = u\<rparr>
           = Return p"
  shows "fetch P request env =
           (Return (new_Response NullBody 204),
            [ResumeMultipartUpload (drop 1 (url_pathname request)) u,
             Abort \<lparr>key = drop 1 (url_pathname request), uploadId = u\<rparr>])"
  using assms by (simp add: fetch_defs Let_def)

theorem abort_rejection_not_caught_witness:
  "abort (BUCKET_NAME test_env) \<lparr>key = ''song.wav'', uploadId = ''gone''\<rparr> =
     Return (Rejected ''The specified multipart upload does not exist.'')
   \<and> fetch test_platform (abort_request ''gone'') test_env =
     (Return \<lparr>res_body = NullBody, status = 204, res_headers = []\<rparr>,
      [ResumeMultipartUpload ''song.wav'' ''gone'',
       Abort \<lparr>key = ''song.wav'', uploadId = ''gone''\<rparr>])"
  using abort_rejection_not_caught
    [where request = "abort_request ''gone''" and u = "''gone''" and P = test_platform
       and env = test_env and p = "Rejected ''The specified multipart upload does not exist.''"]
  by (simp add: searchParams_get_def abort_request_def test_env_def test_bucket_def
      new_Response_def)


section \<open>Properties of the token codec\<close>

subsection \<open>base64url decodes what it encodes\<close>

lemma div_small: "x < m \<Longrightarrow> (k * m + x) div m = (k::nat)"
  by simp

lemma mod_small: "x < m \<Longrightarrow> (k * m + x) mod m = (x::nat)"
  by simp

lemma regroup1: "b < 256 \<Longrightarrow> a div 4 * 4 + (a mod 4 * 16 + b div 16) div 16 = (a::nat)"
proof -
  assume "b < 256"
  then have "b div 16 < 16" by simp
  then have "(a mod 4 * 16 + b div 16) div 16 = a mod 4" by (rule div_small)
  then show ?thesis by simp
qed

lemma regroup2:
  "b < 256 \<Longrightarrow> c < 256 \<Longrightarrow>
   (a mod 4 * 16 + b div 16) mod 16 * 16 + (b mod 16 * 4 + c div 64) div 4 = (b::nat)"
proof -
  assume "b < 256" and "c < 256"
  then have "b div 16 < 16" and "c div 64 < 4" by simp_all
  then have "(a mod 4 * 16 + b div 16) mod 16 = b div 16"
    and "(b mod 16 * 4 + c div 64) div 4 = b mod 16"
    by (simp_all only: mod_small div_small)
  then show ?thesis by simp
qed

lemma regroup3: "c < 256 \<Longrightarrow> (b mod 16 * 4 + c div 64) mod 4 * 64 + c mod 64 = (c::nat)"
proof -
  assume "c < 256"
  then have "c div 64 < 4" by simp
  then have "(b mod 16 * 4 + c div 64) mod 4 = c div 64" by (rule mod_small)
  then show ?thesis by simp
qed

lemma octets_sextets: "\<forall>b \<in> set bs. b < 256 \<Longrightarrow> octets (sextets bs) = Some bs"
proof (induction bs rule: sextets.induct)
  case (1 a b c r)
  then have "a < 256" "b < 256" "c < 256" and "octets (sextets r) = Some r"
    by simp_all
  then show ?case
    using regroup1 [of b a] regroup2 [of b c a] regroup3 [of c b] by simp
next
  case (2 a b)
  then show ?case
    using regroup1 [of b a] regroup2 [of b 0 a] by simp
next
  case (3 a)
  then show ?case
    using regroup1 [of 0 a] by simp
next
  case 4
  then show ?case by simp
qed

lemma sextets_bound: "\<forall>b \<in> set bs. b < 256 \<Longrightarrow> \<forall>n \<in> set (sextets bs). n < 64"
  by (induction bs rule: sextets.induct) auto

lemma index_of_nth: "distinct xs \<Longrightarrow> n < length xs \<Longrightarrow> index_of (xs ! n) xs = Some n"
proof (induction xs arbitrary: n)
  case Nil
  then show ?case by simp
next
  case (Cons x xs)
  then show ?case by (cases n) auto
qed

lemma distinct_alphabet: "distinct b64_alphabet"
  by (simp add: b64_alphabet_def)

lemma length_alphabet: "length b64_alphabet = 64"
  by (simp add: b64_alphabet_def)

lemma b64_values_map:
  "\<forall>n \<in> set ns. n < 64 \<Longrightarrow> b64_values (map (\<lambda>n. b64_alphabet ! n) ns) = Some ns"
  by (induction ns) (simp_all add: index_of_nth distinct_alphabet length_alphabet)

lemma b64url_roundtrip: "b64url_decode (b64url_encode s) = Some s"
proof -
  have bytes: "\<forall>b \<in> set (map of_char s :: nat list). b < 256"
    by simp
  have "b64_values (b64url_encode s) = Some (sextets (map of_char s))"
    unfolding b64url_encode_def by (rule b64_values_map) (rule sextets_bound [OF bytes])
  moreover have "octets (sextets (map of_char s)) = Some (map of_char s)"
    by (rule octets_sextets [OF bytes])
  ultimately show ?thesis
    by (simp add: b64url_decode_def comp_def)
qed

lemma b64url_no_dot: "CHR ''.'' \<notin> set (b64url_encode s)"
proof -
  have "set (b64url_encode s) \<subseteq> set b64_alphabet"
    using sextets_bound [of "map of_char s"]
    by (auto simp: b64url_encode_def length_alphabet)
  moreover have "CHR ''.'' \<notin> set b64_alphabet"
    by (simp add: b64_alphabet_def)
  ultimately show ?thesis by blast
qed

subsection \<open>The serialization parses back\<close>

lemma digit_value_char_of: "d < 10 \<Longrightarrow> digit_value (char_of (48 + d)) = Some d"
  by (simp add: digit_value_def Let_def)

lemma is_digit_char_of: "d < 10 \<Longrightarrow> is_digit 10 (char_of (48 + (d::nat)))"
  by (simp add: is_digit_def digit_value_char_of)

lemma digits_value_snoc:
  "digits_value R (Z @ [c]) =
     digits_value R Z * R + (case digit_value c of None \<Rightarrow> 0 | Some v \<Rightarrow> v)"
  by (simp add: digits_value_def)

lemma show_nat_digits: "list_all (is_digit 10) (show_nat n) \<and> show_nat n \<noteq> []"
proof (induction n rule: show_nat.induct)
  case (1 n)
  show ?case
  proof (cases "n < 10")
    case True
    then show ?thesis by (subst (1 2) show_nat.simps) (simp add: is_digit_char_of)
  next
    case False
    with 1 have "list_all (is_digit 10) (show_nat (n div 10))" by simp
    moreover have "is_digit 10 (char_of (48 + n mod 10))" by (simp add: is_digit_char_of)
    ultimately show ?thesis using False by (subst (1 2) show_nat.simps) simp
  qed
qed

lemma digits_value_show_nat: "digits_value 10 (show_nat n) = n"
proof (induction n rule: show_nat.induct)
  case (1 n)
  show ?case
  proof (cases "n < 10")
    case True
    then show ?thesis
      by (subst show_nat.simps) (simp add: digits_value_def digit_value_char_of)
  next
    case False
    with 1 have "digits_value 10 (show_nat (n div 10)) = n div 10" by simp
    then show ?thesis
      using False
      by (subst show_nat.simps) (simp add: digits_value_snoc digit_value_char_of)
  qed
qed

lemma read_nat_show_nat: "read_nat (show_nat n) = Some n"
  using show_nat_digits [of n] by (simp add: read_nat_def digits_value_show_nat)

lemma hd_show_nat: "\<exists>c cs. show_nat n = c # cs \<and> is_digit 10 c"
  using show_nat_digits [of n] by (cases "show_nat n") simp_all

lemma not_digit_minus: "\<not> is_digit 10 (CHR ''-'')"
  by (simp add: is_digit_def digit_value_def)

lemma not_digit_colon: "\<not> is_digit 10 (CHR '':'')"
  by (simp add: is_digit_def digit_value_def)

lemma read_int_show_int: "read_int (show_int i) = Some i"
proof (cases "i < 0")
  case True
  then show ?thesis by (simp add: read_int_def show_int_def read_nat_show_nat)
next
  case False
  obtain c cs where s: "show_nat (nat i) = c # cs" and d: "is_digit 10 c"
    using hd_show_nat by blast
  from d not_digit_minus have "c \<noteq> CHR ''-''" by auto
  moreover have "read_nat (c # cs) = Some (nat i)"
    using read_nat_show_nat [of "nat i"] s by simp
  ultimately show ?thesis using False s by (simp add: read_int_def show_int_def)
qed

lemma dec_field_enc_field: "dec_field (enc_field s @ r) = Some (s, r)"
proof -
  let ?n = "show_nat (length s)"
  have all: "\<And>x. x \<in> set ?n \<Longrightarrow> is_digit 10 x"
    using show_nat_digits [of "length s"] by (simp add: list_all_iff)
  have t: "takeWhile (is_digit 10) (?n @ CHR '':'' # s @ r) = ?n"
    using all by (simp add: takeWhile_append2 not_digit_colon)
  have d: "dropWhile (is_digit 10) (?n @ CHR '':'' # s @ r) = CHR '':'' # s @ r"
    using all by (simp add: dropWhile_append2 not_digit_colon)
  show ?thesis
    by (simp add: dec_field_def enc_field_def t d read_nat_show_nat)
qed

lemma dec_fields_enc:
  "dec_fields (length fs) (concat (map enc_field fs) @ r) = Some (fs, r)"
  by (induction fs) (simp_all add: dec_field_enc_field)

lemma status_of_status_name: "status_of (status_name st) = Some st"
  by (cases st) (simp_all add: status_of_def)

lemma read_aud_show_aud: "read_aud (show_aud a) = Some a"
  by (cases a) (simp_all add: read_aud_def show_aud_def)

lemma parse_claims_serialize_claims: "parse_claims (serialize_claims c) = Some c"
proof -
  let ?songs = "orderSongIds (addl c)"
  have "length (claims_fields c) = 10"
    by (simp add: claims_fields_def)
  then have head: "dec_fields 10 (serialize_claims c) =
      Some (claims_fields c, concat (map enc_field ?songs))"
    using dec_fields_enc [of "claims_fields c" "concat (map enc_field ?songs)"]
    by (simp add: serialize_claims_def)
  have tail: "dec_fields (length ?songs) (concat (map enc_field ?songs)) = Some (?songs, [])"
    using dec_fields_enc [of ?songs "[]"] by simp
  show ?thesis
    unfolding parse_claims_def head
    by (simp add: claims_fields_def read_int_show_int status_of_status_name
        read_aud_show_aud read_nat_show_nat tail)
qed

subsection \<open>Tokens\<close>

lemma split_on_free: "d \<notin> set s \<Longrightarrow> split_on d s = [s]"
  by (induction s) auto

lemma split_on_append: "d \<notin> set s \<Longrightarrow> split_on d (s @ d # r) = s # split_on d r"
  by (induction s) auto

lemma split_token:
  "split_on (CHR ''.'')
     (b64url_encode h @ CHR ''.'' # b64url_encode p @ CHR ''.'' # b64url_encode s)
     = [b64url_encode h, b64url_encode p, b64url_encode s]"
  by (simp add: split_on_append split_on_free b64url_no_dot)

lemma matching_symbolic:
  "matching_keys symbolic_scheme a (''private:'' @ k) (''public:'' @ k)"
  by (simp add: matching_keys_def symbolic_scheme_def)

text \<open>
  C9. For every claim set \<open>c\<close>, whatever its order metadata, and every pair of matching
  keys: \<open>sign\<close> gives a token, and \<open>verify\<close> of that token with the matching public
  key and the same algorithm gives back \<open>c\<close>.
\<close>

theorem sign_verify_roundtrip:
  assumes "matching_keys S a privateKey publicKey"
  shows "\<exists>token. codec_sign S c privateKey a = Return (Resolved token)
           \<and> codec_verify S token publicKey a = Some \<lparr>payload = c\<rparr>"
proof -
  from assms obtain sg where sg: "sig_sign S a privateKey (signing_input c a) = Some sg"
    and ok: "sig_check S a publicKey (signing_input c a) sg"
    unfolding matching_keys_def by blast
  let ?token = "signing_input c a @ CHR ''.'' # b64url_encode sg"
  have "codec_sign S c privateKey a = Return (Resolved ?token)"
    by (simp add: codec_sign_def sg)
  moreover have "codec_verify S ?token publicKey a = Some \<lparr>payload = c\<rparr>"
    using ok
    by (simp add: codec_verify_def signing_input_def split_token b64url_roundtrip
        parse_claims_serialize_claims)
  ultimately show ?thesis by blast
qed

theorem sign_verify_roundtrip_witness:
  "codec_sign symbolic_scheme test_claims ''private:k1'' RS512 = Return (Resolved inbound_token)
   \<and> codec_verify symbolic_scheme inbound_token ''public:k1'' RS512
       = Some \<lparr>payload = test_claims\<rparr>"
proof -
  have m: "matching_keys symbolic_scheme RS512 ''private:k1'' ''public:k1''"
    using matching_symbolic [of RS512 "''k1''"] by simp
  have s: "codec_sign symbolic_scheme test_claims ''private:k1'' RS512
             = Return (Resolved inbound_token)"
    by code_simp
  from sign_verify_roundtrip [OF m, of test_claims] s show ?thesis by simp
qed

section \<open>The keys of the two directions\<close>

text \<open>
  C7 (as the code has it). Every verification the pipeline makes uses
  \<open>CLOUDFLARE_WORKER_PUBLIC_KEY\<close> and every signature it makes uses
  \<open>CLOUDFLARE_WORKER_PRIVATE_KEY\<close>, both under \<open>CLOUDFLARE_WORKER_SIGNING_ALGO\<close>:
  one field of the configuration for each direction. Nothing requires the two fields to
  come from different key pairs.
\<close>

theorem verifyRequest_uses_configured_keys:
  "list_all (uses_configured_key env) (snd (verifyRequest P headers env))"
proof (cases "extractJwtCookie P (COOKIE_NAME env) headers")
  case None
  then show ?thesis by (simp add: verifyRequest_def)
next
  case (Some jwt)
  have sign_calls: "list_all (uses_configured_key env) (snd (signJwt P meta env))" for meta
    by (simp add: signJwt_def uses_configured_key_def Let_def)
  have exec_calls: "list_all (uses_configured_key env)
                (snd (executeConveyorVerificationRequest P meta env))" for meta
    using sign_calls [of meta]
    by (cases "signJwt P meta env")
       (auto simp: executeConveyorVerificationRequest_def uses_configured_key_def Let_def
             split: outcome.splits)
  have exec: "list_all (uses_configured_key env) cs"
    if "executeConveyorVerificationRequest P meta env = (r, cs)" for meta r cs
    using exec_calls [of meta] that by simp
  show ?thesis
    using Some
    by (auto simp: verifyRequest_def uses_configured_key_def Let_def
          split: option.splits prod.splits dest: exec)
qed

theorem verifyRequest_uses_configured_keys_witness:
  "list_all (uses_configured_key test_env)
     (snd (verifyRequest test_platform [(''cookie'', ''jwt=good'')] test_env))
   \<and> map (\<lambda>c. case c of Verify t k a \<Rightarrow> k | Sign cl k a \<Rightarrow> k | Fetch rq \<Rightarrow> [])
       (snd (verifyRequest test_platform [(''cookie'', ''jwt=good'')] test_env))
     = [''PUBLIC'', ''PRIVATE'', []]"
  using verifyRequest_uses_configured_keys
    [of test_env test_platform "[(''cookie'', ''jwt=good'')]"]
  by (simp add: verifyRequest_def extractJwtCookie_def headers_get_def
      executeConveyorVerificationRequest_def signJwt_def isApiError_def Let_def
      verification_request_def test_defs)

text \<open>
  With a configuration whose two keys are the halves of one pair, and the codec over the
  symbolic scheme: a token signed with the private key that signs the outbound token is
  verified with the configured public key, and the request is allowed.
\<close>

theorem shared_key_pair_counterexample:
  "matching_keys symbolic_scheme (CLOUDFLARE_WORKER_SIGNING_ALGO shared_key_env)
     (CLOUDFLARE_WORKER_PRIVATE_KEY shared_key_env) (CLOUDFLARE_WORKER_PUBLIC_KEY shared_key_env)
   \<and> codec_sign symbolic_scheme test_claims (CLOUDFLARE_WORKER_PRIVATE_KEY shared_key_env)
       (CLOUDFLARE_WORKER_SIGNING_ALGO shared_key_env) = Return (Resolved inbound_token)
   \<and> fst (verifyRequest codec_platform [(''cookie'', ''jwt='' @ inbound_token)] shared_key_env)"
proof -
  have m: "matching_keys symbolic_scheme RS512 ''private:k1'' ''public:k1''"
    using matching_symbolic [of RS512 "''k1''"] by simp
  have s: "codec_sign symbolic_scheme test_claims ''private:k1'' RS512
             = Return (Resolved inbound_token)"
    by code_simp
  have v: "codec_verify symbolic_scheme inbound_token ''public:k1'' RS512
             = Some \<lparr>payload = test_claims\<rparr>"
    by code_simp
  have t: "inbound_token \<noteq> []"
    by (simp add: inbound_token_def)
  have "fst (verifyRequest codec_platform [(''cookie'', ''jwt='' @ inbound_token)]
               shared_key_env)"
    using v t
    by (simp add: verifyRequest_def extractJwtCookie_def headers_get_def
        executeConveyorVerificationRequest_def signJwt_def isApiError_def Let_def
        verification_request_def codec_platform_def shared_key_env_def test_defs
        codec_sign_def symbolic_scheme_def)
  with m s show ?thesis by (simp add: shared_key_env_def test_env_def)
qed

end
